theory Spec2Isabelle
  imports Main "HOL-Library.Sublist"
begin

section \<open>Python strings and paths\<close>

text \<open>
  Strings are byte lists. The console messages of \<^verbatim>\<open>app.py\<close> start with symbols outside
  ASCII; they are written here as their UTF-8 bytes.
\<close>

definition nl :: string where
  "nl = [CHR 0x0A]"

definition apos :: string where
  "apos = [CHR 0x27]"

definition check_mark :: string where
  "check_mark = [CHR 0xE2, CHR 0x9C, CHR 0x85]"

definition cross_mark :: string where
  "cross_mark = [CHR 0xE2, CHR 0x9D, CHR 0x8C]"

definition info_mark :: string where
  "info_mark = [CHR 0xE2, CHR 0x84, CHR 0xB9, CHR 0xEF, CHR 0xB8, CHR 0x8F]"

definition warning_mark :: string where
  "warning_mark = [CHR 0xE2, CHR 0x9A, CHR 0xA0, CHR 0xEF, CHR 0xB8, CHR 0x8F]"

definition sparkles :: string where
  "sparkles = [CHR 0xE2, CHR 0x9C, CHR 0xA8]"

definition folder_mark :: string where
  "folder_mark = [CHR 0xF0, CHR 0x9F, CHR 0x93, CHR 0x82]"


text \<open>
  Text is held as its UTF-8 bytes (\<^verbatim>\<open>text=True\<close> decodes the output of the tool with the
  encoding of the locale, taken to be UTF-8). A white-space character of \<^verbatim>\<open>str.isspace\<close>
  is one byte in the ASCII range (blank, the controls 0x09 to 0x0D and 0x1C to 0x1F), two
  bytes for U+0085 and U+00A0, or three bytes for U+1680, U+2000 to U+200A, U+2028, U+2029,
  U+202F, U+205F and U+3000.
\<close>

definition isspace :: "char \<Rightarrow> bool" where
  "isspace c = (c \<in> set [CHR 0x20, CHR 0x09, CHR 0x0A, CHR 0x0B, CHR 0x0C, CHR 0x0D,
                           CHR 0x1C, CHR 0x1D, CHR 0x1E, CHR 0x1F])"

definition isspace2 :: "char \<Rightarrow> char \<Rightarrow> bool" where
  "isspace2 a b \<longleftrightarrow> a = CHR 0xC2 \<and> (b = CHR 0x85 \<or> b = CHR 0xA0)"

definition isspace3 :: "char \<Rightarrow> char \<Rightarrow> char \<Rightarrow> bool" where
  "isspace3 a b c \<longleftrightarrow>
     (a = CHR 0xE1 \<and> b = CHR 0x9A \<and> c = CHR 0x80)
     \<or> (a = CHR 0xE2 \<and> b = CHR 0x80
          \<and> c \<in> set [CHR 0x80, CHR 0x81, CHR 0x82, CHR 0x83, CHR 0x84, CHR 0x85, CHR 0x86,
                       CHR 0x87, CHR 0x88, CHR 0x89, CHR 0x8A, CHR 0xA8, CHR 0xA9, CHR 0xAF])
     \<or> (a = CHR 0xE2 \<and> b = CHR 0x81 \<and> c = CHR 0x9F)
     \<or> (a = CHR 0xE3 \<and> b = CHR 0x80 \<and> c = CHR 0x80)"

text \<open>
  The number of bytes of the white-space character a text starts with, 0 when it starts
  with none; and the same for the character a text ends with, read off the reversed bytes.
\<close>

definition space_len :: "string \<Rightarrow> nat" where
  "space_len s =
     (case s of
        [] \<Rightarrow> 0
      | a # r \<Rightarrow>
          if isspace a then 1
          else (case r of
                  [] \<Rightarrow> 0
                | b # r' \<Rightarrow>
                    if isspace2 a b then 2
                    else (case r' of [] \<Rightarrow> 0 | c # r'' \<Rightarrow> if isspace3 a b c then 3 else 0)))"

definition space_len_rev :: "string \<Rightarrow> nat" where
  "space_len_rev s =
     (case s of
        [] \<Rightarrow> 0
      | c # r \<Rightarrow>
          if isspace c then 1
          else (case r of
                  [] \<Rightarrow> 0
                | b # r' \<Rightarrow>
                    if isspace2 b c then 2
                    else (case r' of [] \<Rightarrow> 0 | a # r'' \<Rightarrow> if isspace3 a b c then 3 else 0)))"

text \<open>The loop that skips white-space characters, from the front of its argument.\<close>

function drop_spaces :: "(string \<Rightarrow> nat) \<Rightarrow> string \<Rightarrow> string" where
  "drop_spaces len s =
     (if len s = 0 \<or> length s < len s then s else drop_spaces len (drop (len s) s))"
  by pat_completeness auto
termination
  by (relation "measure (\<lambda>(len, s). length s)") auto

declare drop_spaces.simps [simp del]

text \<open>
  \<^verbatim>\<open>s.strip()\<close>: leading and trailing white-space characters removed. In well-formed
  UTF-8 the bytes of one character are never the tail of another, so removing them at the end
  of the bytes removes the characters.
\<close>

definition lstrip :: "string \<Rightarrow> string" where
  "lstrip s = drop_spaces space_len s"

definition rstrip :: "string \<Rightarrow> string" where
  "rstrip s = rev (drop_spaces space_len_rev (rev s))"

definition strip :: "string \<Rightarrow> string" where
  "strip s = rstrip (lstrip s)"

text \<open>\<^verbatim>\<open>s.split('/')\<close>: the pieces between the separators, empty pieces included.\<close>

fun split_sep :: "string \<Rightarrow> string list" where
  "split_sep [] = [[]]"
| "split_sep (c # cs) =
     (if c = CHR ''/'' then [] # split_sep cs
      else (case split_sep cs of [] \<Rightarrow> [[c]] | p # ps \<Rightarrow> (c # p) # ps))"

text \<open>\<^verbatim>\<open>[x for x in p.split(sep) if x]\<close>: the non-empty components of a path.\<close>

definition components :: "string \<Rightarrow> string list" where
  "components p = filter (\<lambda>x. x \<noteq> []) (split_sep p)"

text \<open>\<^verbatim>\<open>len(os.path.commonprefix([xs, ys]))\<close> on two component lists.\<close>

fun common_len :: "string list \<Rightarrow> string list \<Rightarrow> nat" where
  "common_len (x # xs) (y # ys) = (if x = y then Suc (common_len xs ys) else 0)"
| "common_len _ _ = 0"

text \<open>\<^verbatim>\<open>'/'.join(parts)\<close>: what \<^verbatim>\<open>os.path.join\<close> gives on non-empty relative components.\<close>

fun join_sep :: "string list \<Rightarrow> string" where
  "join_sep [] = []"
| "join_sep [p] = p"
| "join_sep (p # ps) = p @ ''/'' @ join_sep ps"

section \<open>The environment: processes, file system, console\<close>

text \<open>
  Exceptions that leave a function of \<^verbatim>\<open>app.py\<close>. \<^verbatim>\<open>CalledProcessError\<close> is not among
  them: \<^verbatim>\<open>run_git_command\<close> is its only source and catches it.
\<close>

datatype exn = OSError | SubprocessError | ValueError | TypeError | JSONDecodeError
  | AttributeError | RequestException | EOFError

datatype 'a res = Val 'a | Exc exn

text \<open>
  One spawned process: its argument vector, its working directory and what is piped to its
  standard input (\<open>None\<close> when the child inherits the parent's).
\<close>

record call =
  argv :: "string list"
  cwd :: string
  stdin :: "string option"

text \<open>
  What spawning a process gives: it ran and exited with a return code, its standard output
  and its standard error, or the spawn raised.
\<close>

datatype proc_result = Exited int string string | Raised exn

text \<open>
  The operating system as the program sees it. \<open>'g\<close> is the state outside the program
  (the local directory and its VCS metadata); \<open>spawn\<close> runs a process on it. \<open>abspath\<close> is
  \<^verbatim>\<open>os.path.abspath\<close> (it depends on the current directory), \<open>isfile\<close> is
  \<^verbatim>\<open>os.path.isfile\<close> and \<open>argv0\<close> is \<^verbatim>\<open>sys.argv[0]\<close>.
\<close>

record 'g sys =
  spawn :: "call \<Rightarrow> 'g \<Rightarrow> proc_result \<times> 'g"
  abspath :: "string \<Rightarrow> string"
  isfile :: "'g \<Rightarrow> string \<Rightarrow> bool"
  argv0 :: string

text \<open>
  The state threaded through the program: the outside state, the processes spawned so far
  with what each gave (oldest first), the lines printed so far (oldest first), and the lines
  the operator will type: at the terminal for \<^verbatim>\<open>getpass\<close>, on standard input for
  \<^verbatim>\<open>input\<close>.
\<close>

record 'g world =
  vcs :: 'g
  trace :: "(call \<times> proc_result) list"
  console :: "string list"
  tty_lines :: "string list"
  stdin_lines :: "string list"

definition init_world :: "'g \<Rightarrow> 'g world" where
  "init_world g = \<lparr>vcs = g, trace = [], console = [], tty_lines = [], stdin_lines = []\<rparr>"

definition calls :: "'g world \<Rightarrow> call list" where
  "calls w = map fst (trace w)"

definition print :: "string \<Rightarrow> 'g world \<Rightarrow> 'g world" where
  "print line w = w\<lparr>console := console w @ [line]\<rparr>"

text \<open>Spawning records the call with its result and moves the outside state.\<close>

definition do_spawn :: "'g sys \<Rightarrow> call \<Rightarrow> 'g world \<Rightarrow> proc_result \<times> 'g world" where
  "do_spawn sys c w =
     (case spawn sys c (vcs w) of
        (r, g') \<Rightarrow> (r, w\<lparr>vcs := g', trace := trace w @ [(c, r)]\<rparr>))"

text \<open>
  \<^verbatim>\<open>os.path.relpath(path, start)\<close> of \<^verbatim>\<open>posixpath\<close>: \<^verbatim>\<open>ValueError\<close> on an empty path,
  otherwise one \<^verbatim>\<open>..\<close> for each component of \<open>start\<close> beyond the common components, then
  the rest of \<open>path\<close>.
\<close>

definition relpath :: "'g sys \<Rightarrow> string \<Rightarrow> string \<Rightarrow> string res" where
  "relpath sys path start =
     (if path = [] then Exc ValueError
      else
        let start_list = components (abspath sys start);
            path_list = components (abspath sys path);
            i = common_len start_list path_list;
            rel_list = replicate (length start_list - i) ''..'' @ drop i path_list
        in if rel_list = [] then Val ''.'' else Val (join_sep rel_list))"

section \<open>Running the VCS tool\<close>

text \<open>
  \<^verbatim>\<open>run_git_command\<close> (lines 45 to 58): \<^verbatim>\<open>subprocess.run\<close> with both outputs captured
  and \<^verbatim>\<open>check=True\<close>. A zero return code gives \<open>(True, stdout.strip())\<close>; a non-zero one
  raises \<^verbatim>\<open>CalledProcessError\<close>, caught, and gives \<open>(False, stderr.strip())\<close>; any other
  exception is not caught.
\<close>

definition run_git_command ::
  "'g sys \<Rightarrow> string list \<Rightarrow> string \<Rightarrow> 'g world \<Rightarrow> (bool \<times> string) res \<times> 'g world" where
  "run_git_command sys command dir w =
     (case do_spawn sys \<lparr>argv = command, cwd = dir, stdin = None\<rparr> w of
        (Exited rc out err, w') \<Rightarrow>
          (if rc = 0 then (Val (True, strip out), w') else (Val (False, strip err), w'))
      | (Raised e, w') \<Rightarrow> (Exc e, w'))"

definition credential_input :: "string \<Rightarrow> string" where
  "credential_input token =
     ''protocol=https'' @ nl @ ''host=github.com'' @ nl @ ''username=x-access-token'' @ nl
       @ ''password='' @ token @ nl @ nl"

text \<open>
  \<^verbatim>\<open>setup_git_credentials_helper\<close> (lines 60 to 79). The second process is started with
  \<^verbatim>\<open>Popen\<close> and fed on its standard input; its outputs are not captured and its return
  code is not looked at. Only a \<^verbatim>\<open>SubprocessError\<close> is caught there.
\<close>

definition setup_git_credentials_helper ::
  "'g sys \<Rightarrow> string \<Rightarrow> string \<Rightarrow> 'g world \<Rightarrow> bool res \<times> 'g world" where
  "setup_git_credentials_helper sys token directory w =
     (case run_git_command sys
             [''git'', ''config'', ''--local'', ''credential.helper'', ''cache''] directory w of
        (Exc e, w1) \<Rightarrow> (Exc e, w1)
      | (Val (success, _), w1) \<Rightarrow>
          if \<not> success then (Val False, w1)
          else
            (case do_spawn sys \<lparr>argv = [''git'', ''credential'', ''approve''], cwd = directory,
                                 stdin = Some (credential_input token)\<rparr> w1 of
               (Exited rc out err, w2) \<Rightarrow> (Val True, w2)
             | (Raised e, w2) \<Rightarrow>
                 (if e = SubprocessError then (Val False, w2) else (Exc e, w2))))"

section \<open>The publish pipeline\<close>

text \<open>
  \<^verbatim>\<open>setup_and_push_repo\<close> (lines 81 to 185) is one function with early returns. Its body
  is cut here at the comments of the source into nine stages; a stage either falls through
  to the next statement, returns from the function, or lets an exception escape.
\<close>

datatype flow = Proceed | Return bool | Raise exn

definition then_stage ::
  "('w \<Rightarrow> flow \<times> 'w) \<Rightarrow> ('w \<Rightarrow> flow \<times> 'w) \<Rightarrow> 'w \<Rightarrow> flow \<times> 'w" where
  "then_stage p q w = (case p w of (Proceed, w') \<Rightarrow> q w' | (f, w') \<Rightarrow> (f, w'))"

text \<open>Lines 97 to 108: initialise the repository unless the directory is a working tree.\<close>

definition ensure_vcs_root :: "'g sys \<Rightarrow> string \<Rightarrow> 'g world \<Rightarrow> flow \<times> 'g world" where
  "ensure_vcs_root sys abs_directory w =
     (case run_git_command sys [''git'', ''rev-parse'', ''--is-inside-work-tree''] abs_directory w of
        (Exc e, w1) \<Rightarrow> (Raise e, w1)
      | (Val (is_git_repo, _), w1) \<Rightarrow>
          if \<not> is_git_repo then
            (case run_git_command sys [''git'', ''init''] abs_directory w1 of
               (Exc e, w2) \<Rightarrow> (Raise e, w2)
             | (Val (success, output), w2) \<Rightarrow>
                 if \<not> success then
                   (Return False,
                    print (cross_mark @ '' Failed to initialize git repository: '' @ output) w2)
                 else (Proceed, print (check_mark @ '' Git repository initialized'') w2))
          else (Proceed, print (info_mark @ '' Git repository already initialized'') w1))"

text \<open>
  Lines 110 to 125: add the remote; when that fails and the listing of the remotes contains
  the text \<^verbatim>\<open>origin\<close>, set its URL instead. The diagnostic printed is the one of the
  first command.
\<close>

definition ensure_remote ::
  "'g sys \<Rightarrow> string \<Rightarrow> string \<Rightarrow> 'g world \<Rightarrow> flow \<times> 'g world" where
  "ensure_remote sys repo_url abs_directory w =
     (case run_git_command sys [''git'', ''remote'', ''add'', ''origin'', repo_url] abs_directory w of
        (Exc e, w1) \<Rightarrow> (Raise e, w1)
      | (Val (success, output), w1) \<Rightarrow>
          if \<not> success then
            (case run_git_command sys [''git'', ''remote'', ''-v''] abs_directory w1 of
               (Exc e, w2) \<Rightarrow> (Raise e, w2)
             | (Val (_, remote_output), w2) \<Rightarrow>
                 if sublist ''origin'' remote_output then
                   (case run_git_command sys
                           [''git'', ''remote'', ''set-url'', ''origin'', repo_url] abs_directory w2 of
                      (Exc e, w3) \<Rightarrow> (Raise e, w3)
                    | (Val (success2, _), w3) \<Rightarrow>
                        if \<not> success2 then
                          (Return False,
                           print (cross_mark @ '' Failed to update remote: '' @ output) w3)
                        else (Proceed, print (check_mark @ '' Remote updated'') w3))
                 else
                   (Return False, print (cross_mark @ '' Failed to add remote: '' @ output) w2))
          else (Proceed, print (check_mark @ '' Remote added'') w1))"

text \<open>
  Lines 127 to 134: one configuration key. The value is queried; when the answer is blank
  the placeholder is written, and the outcome of that write is not looked at.
\<close>

definition ensure_config ::
  "'g sys \<Rightarrow> string \<Rightarrow> string \<Rightarrow> string \<Rightarrow> 'g world \<Rightarrow> flow \<times> 'g world" where
  "ensure_config sys key placeholder abs_directory w =
     (case run_git_command sys [''git'', ''config'', key] abs_directory w of
        (Exc e, w1) \<Rightarrow> (Raise e, w1)
      | (Val (_, key_output), w1) \<Rightarrow>
          if strip key_output = [] then
            (case run_git_command sys [''git'', ''config'', key, placeholder] abs_directory w1 of
               (Exc e, w2) \<Rightarrow> (Raise e, w2)
             | (Val _, w2) \<Rightarrow> (Proceed, w2))
          else (Proceed, w1))"

definition ensure_identity :: "'g sys \<Rightarrow> string \<Rightarrow> 'g world \<Rightarrow> flow \<times> 'g world" where
  "ensure_identity sys abs_directory =
     then_stage (ensure_config sys ''user.name'' ''GitHub Auto Uploader'' abs_directory)
                (ensure_config sys ''user.email'' ''auto-uploader@example.com'' abs_directory)"

text \<open>
  Lines 136 to 140: \<^verbatim>\<open>if token:\<close> holds for a non-empty string (\<open>None\<close> is the default
  of the parameter). A helper that reports failure costs a warning only.
\<close>

definition inject_credential ::
  "'g sys \<Rightarrow> string option \<Rightarrow> string \<Rightarrow> 'g world \<Rightarrow> flow \<times> 'g world" where
  "inject_credential sys token abs_directory w =
     (case token of
        None \<Rightarrow> (Proceed, w)
      | Some t \<Rightarrow>
          if t = [] then (Proceed, w)
          else
            (case setup_git_credentials_helper sys t abs_directory w of
               (Exc e, w1) \<Rightarrow> (Raise e, w1)
             | (Val setup_success, w1) \<Rightarrow>
                 if \<not> setup_success then
                   (Proceed,
                    print (warning_mark @ '' Warning: Failed to setup credentials helper. You may be prompted for credentials.'') w1)
                 else (Proceed, w1)))"

text \<open>Lines 142 to 147.\<close>

definition stage_all :: "'g sys \<Rightarrow> string \<Rightarrow> 'g world \<Rightarrow> flow \<times> 'g world" where
  "stage_all sys abs_directory w =
     (case run_git_command sys [''git'', ''add'', ''.''] abs_directory w of
        (Exc e, w1) \<Rightarrow> (Raise e, w1)
      | (Val (success, output), w1) \<Rightarrow>
          if \<not> success then
            (Return False, print (cross_mark @ '' Failed to add files: '' @ output) w1)
          else (Proceed, print (check_mark @ '' Files added to staging area'') w1))"

text \<open>
  Lines 149 to 155: the guard is \<^verbatim>\<open>os.path.isfile(script_path) and
  script_path.startswith(abs_directory)\<close>, a prefix test on the two strings. The outcome of
  the reset is not looked at.
\<close>

definition exclude_script :: "'g sys \<Rightarrow> string \<Rightarrow> 'g world \<Rightarrow> flow \<times> 'g world" where
  "exclude_script sys abs_directory w =
     (let script_path = abspath sys (argv0 sys) in
      if isfile sys (vcs w) script_path \<and> prefix abs_directory script_path then
        (case relpath sys script_path abs_directory of
           Exc e \<Rightarrow> (Raise e, w)
         | Val rel_script_path \<Rightarrow>
             (case run_git_command sys [''git'', ''reset'', ''HEAD'', rel_script_path] abs_directory
                     (print (warning_mark @ '' Detected script in repository. Excluding it from commit to prevent token exposure.'') w) of
                (Exc e, w1) \<Rightarrow> (Raise e, w1)
              | (Val _, w1) \<Rightarrow> (Proceed, w1)))
      else (Proceed, w))"

text \<open>Lines 157 to 165.\<close>

definition commit_stage :: "'g sys \<Rightarrow> string \<Rightarrow> 'g world \<Rightarrow> flow \<times> 'g world" where
  "commit_stage sys abs_directory w =
     (case run_git_command sys
             [''git'', ''commit'', ''-m'', ''Initial commit from auto-upload script''] abs_directory w of
        (Exc e, w1) \<Rightarrow> (Raise e, w1)
      | (Val (success, output), w1) \<Rightarrow>
          if \<not> success then (Return False, print (cross_mark @ '' Failed to commit: '' @ output) w1)
          else (Proceed, print (check_mark @ '' Changes committed'') w1))"

text \<open>Lines 167 to 173.\<close>

definition select_branch :: "'g sys \<Rightarrow> string \<Rightarrow> string \<Rightarrow> 'g world \<Rightarrow> flow \<times> 'g world" where
  "select_branch sys branch abs_directory w =
     (if branch \<noteq> ''main'' \<and> branch \<noteq> ''master'' then
        (case run_git_command sys [''git'', ''checkout'', ''-b'', branch] abs_directory w of
           (Exc e, w1) \<Rightarrow> (Raise e, w1)
         | (Val (success, output), w1) \<Rightarrow>
             if \<not> success then
               (Return False, print (cross_mark @ '' Failed to create branch: '' @ output) w1)
             else
               (Proceed,
                print (check_mark @ '' Created and switched to branch '' @ apos @ branch @ apos) w1))
      else (Proceed, w))"

text \<open>Lines 175 to 185.\<close>

definition push_stage :: "'g sys \<Rightarrow> string \<Rightarrow> string \<Rightarrow> 'g world \<Rightarrow> flow \<times> 'g world" where
  "push_stage sys branch abs_directory w =
     (case run_git_command sys [''git'', ''push'', ''-u'', ''origin'', branch] abs_directory w of
        (Exc e, w1) \<Rightarrow> (Raise e, w1)
      | (Val (success, output), w1) \<Rightarrow>
          if \<not> success then
            (Return False, print (cross_mark @ '' Failed to push to GitHub: '' @ output) w1)
          else
            (Return True,
             print (check_mark @ '' Successfully pushed to GitHub branch '' @ apos @ branch @ apos) w1))"

text \<open>The stages that only prepare the directory (1 to 3), and the rest (4 to 9).\<close>

definition stages_1_3 :: "'g sys \<Rightarrow> string \<Rightarrow> string \<Rightarrow> 'g world \<Rightarrow> flow \<times> 'g world" where
  "stages_1_3 sys repo_url abs_directory =
     then_stage (ensure_vcs_root sys abs_directory)
       (then_stage (ensure_remote sys repo_url abs_directory)
          (ensure_identity sys abs_directory))"

definition stages_5_9 :: "'g sys \<Rightarrow> string \<Rightarrow> string \<Rightarrow> 'g world \<Rightarrow> flow \<times> 'g world" where
  "stages_5_9 sys branch abs_directory =
     then_stage (stage_all sys abs_directory)
       (then_stage (exclude_script sys abs_directory)
          (then_stage (commit_stage sys abs_directory)
             (then_stage (select_branch sys branch abs_directory)
                (push_stage sys branch abs_directory))))"

definition setup_and_push_repo ::
  "'g sys \<Rightarrow> string \<Rightarrow> string \<Rightarrow> string \<Rightarrow> string option \<Rightarrow> 'g world \<Rightarrow> flow \<times> 'g world" where
  "setup_and_push_repo sys repo_url directory branch token =
     (let abs_directory = abspath sys directory in
      then_stage (stages_1_3 sys repo_url abs_directory)
        (then_stage (inject_credential sys token abs_directory)
           (stages_5_9 sys branch abs_directory)))"

section \<open>The provider client\<close>

text \<open>
  What \<^verbatim>\<open>response.json()\<close> can give, as far as the program looks into it: an object
  with its members in the order of the text, or another value. The value of a member is
  \<^verbatim>\<open>null\<close>, a string, or something else, of which only its truth value and its
  \<^verbatim>\<open>str()\<close> matter.
\<close>

datatype jv = JNull | JStr string | JOther bool string

datatype json = JObj "(string \<times> jv) list" | JVal jv

text \<open>
  The request of lines 23 to 35, and what \<^verbatim>\<open>requests.post\<close> gives: a response with its
  status code and its body (\<open>None\<close> when the body is not JSON), or an exception.
\<close>

record request =
  req_url :: string
  req_headers :: "(string \<times> string) list"
  json_name :: string
  json_description :: string
  json_private :: bool
  json_auto_init :: bool

datatype http_result = Response int "json option" | HttpRaised



fun py_str :: "jv \<Rightarrow> string" where
  "py_str JNull = ''None''"
| "py_str (JStr s) = s"
| "py_str (JOther t r) = r"

text \<open>
  \<^verbatim>\<open>d.get(key, default)\<close>: only a \<^verbatim>\<open>dict\<close> has the method; of a repeated member the
  JSON decoder keeps the last.
\<close>

fun dict_get :: "json \<Rightarrow> string \<Rightarrow> jv \<Rightarrow> jv res" where
  "dict_get (JObj kvs) key dflt =
     Val (case map_of (rev kvs) key of None \<Rightarrow> dflt | Some v \<Rightarrow> v)"
| "dict_get (JVal v) key dflt = Exc AttributeError"

text \<open>\<^verbatim>\<open>response.json()\<close>.\<close>

definition response_json :: "json option \<Rightarrow> json res" where
  "response_json body = (case body of None \<Rightarrow> Exc JSONDecodeError | Some j \<Rightarrow> Val j)"

fun digits :: "nat \<Rightarrow> string" where
  "digits n = (if n < 10 then [char_of (48 + n)] else digits (n div 10) @ [char_of (48 + n mod 10)])"

definition str_int :: "int \<Rightarrow> string" where
  "str_int i = (if i < 0 then ''-'' @ digits (nat (- i)) else digits (nat i))"

definition create_request :: "string \<Rightarrow> string \<Rightarrow> string \<Rightarrow> bool \<Rightarrow> request" where
  "create_request token repo_name description private =
     \<lparr>req_url = ''https://api.github.com/user/repos'',
      req_headers = [(''Authorization'', ''token '' @ token),
                 (''Accept'', ''application/vnd.github.v3+json'')],
      json_name = repo_name, json_description = description, json_private = private,
      json_auto_init = False\<rparr>"

text \<open>
  \<^verbatim>\<open>create_github_repo\<close> (lines 10 to 43). It returns the decoded body on status 201 and
  \<^verbatim>\<open>None\<close> otherwise, after printing the status code and the message of the body.
\<close>

definition create_github_repo ::
  "(request \<Rightarrow> http_result) \<Rightarrow> string \<Rightarrow> string \<Rightarrow> string \<Rightarrow> bool \<Rightarrow> 'g world
     \<Rightarrow> json res \<times> 'g world" where
  "create_github_repo post token repo_name description private w =
     (case post (create_request token repo_name description private) of
        HttpRaised \<Rightarrow> (Exc RequestException, w)
      | Response status_code body \<Rightarrow>
          if status_code = 201 then
            (response_json body,
             print (check_mark @ '' Repository '' @ apos @ repo_name @ apos
                      @ '' created successfully!'') w)
          else
            (let w1 = print (cross_mark @ '' Failed to create repository. Status code: ''
                               @ str_int status_code) w
             in case response_json body of
                  Exc e \<Rightarrow> (Exc e, w1)
                | Val j \<Rightarrow>
                    (case dict_get j ''message'' (JStr ''Unknown error'') of
                       Exc e \<Rightarrow> (Exc e, w1)
                     | Val m \<Rightarrow> (Val (JVal JNull), print (''Error message: '' @ py_str m) w1))))"

section \<open>The command line\<close>

text \<open>The namespace \<^verbatim>\<open>parse_args\<close> gives (lines 188 to 197).\<close>

record args =
  arg_name :: "string option"
  arg_description :: string
  arg_private :: bool
  arg_branch :: string
  arg_token :: "string option"
  arg_directory :: string
  arg_interactive :: bool











text \<open>How a call of \<^verbatim>\<open>main\<close> ends: it returns, it calls \<^verbatim>\<open>sys.exit\<close>, or an exception escapes.\<close>

datatype outcome = Finished | Exit int | Uncaught exn

text \<open>
  Lines 248 to 255, for a repository URL that is a string. A URL of another type passes the
  first stage, which does not use it, and is refused by \<^verbatim>\<open>subprocess.run\<close> in the second.
\<close>

definition upload ::
  "'g sys \<Rightarrow> json \<Rightarrow> jv \<Rightarrow> string \<Rightarrow> string \<Rightarrow> string \<Rightarrow> 'g world \<Rightarrow> outcome \<times> 'g world" where
  "upload sys repo_data repo_url directory branch token w =
     (case (case repo_url of
              JStr u \<Rightarrow> setup_and_push_repo sys u directory branch (Some token) w
            | _ \<Rightarrow> then_stage (ensure_vcs_root sys (abspath sys directory))
                     (\<lambda>w'. (Raise TypeError, w')) w) of
        (Raise e, w1) \<Rightarrow> (Uncaught e, w1)
      | (Return True, w1) \<Rightarrow>
          (let w2 = print (nl @ sparkles @ '' Success! Your files have been uploaded to GitHub.'') w1
           in case dict_get repo_data ''html_url'' JNull of
                Exc e \<Rightarrow> (Uncaught e, w2)
              | Val h \<Rightarrow> (Finished, print (folder_mark @ '' Repository URL: '' @ py_str h) w2))
      | (_, w1) \<Rightarrow>
          (Exit 1, print (nl @ cross_mark @ '' Failed to upload files to GitHub.'') w1))"





section \<open>A reference model of the VCS tool\<close>

text \<open>
  git is not part of \<^verbatim>\<open>app.py\<close>: the pipeline above takes it as the parameter \<open>spawn\<close>.
  The claims about the state of the local directory need a tool to run against. This is
  git's documented behaviour on the commands the pipeline issues, over a state that holds
  what those commands read and write. A directory is a working tree or not; a working tree
  has remotes, configuration values, an index (the staged paths), the trees of the commits
  of the current branch (newest first) and branch names.
\<close>

record repo =
  remotes :: "(string \<times> string) list"
  config :: "(string \<times> string) list"
  index :: "string list"
  history :: "string list list"
  current_branch :: string
  branches :: "string list"

record dir_state =
  repo :: "repo option"
  files :: "string list"
  init_branch :: string
  credential_cache :: "string list"
  remote_reachable :: bool
  pushed :: "(string \<times> string) list"

definition not_a_repository :: proc_result where
  "not_a_repository =
     Exited 128 [] (''fatal: not a git repository (or any of the parent directories): .git'' @ nl)"

text \<open>Replace the value of a key that is present, append the pair otherwise.\<close>

fun assoc_set :: "string \<Rightarrow> string \<Rightarrow> (string \<times> string) list \<Rightarrow> (string \<times> string) list" where
  "assoc_set k v [] = [(k, v)]"
| "assoc_set k v ((k', v') # kvs) =
     (if k = k' then (k, v) # kvs else (k', v') # assoc_set k v kvs)"

definition with_repo ::
  "dir_state \<Rightarrow> (repo \<Rightarrow> proc_result \<times> dir_state) \<Rightarrow> proc_result \<times> dir_state" where
  "with_repo d f = (case repo d of None \<Rightarrow> (not_a_repository, d) | Some r \<Rightarrow> f r)"

definition git_rev_parse :: "dir_state \<Rightarrow> proc_result \<times> dir_state" where
  "git_rev_parse d = with_repo d (\<lambda>r. (Exited 0 (''true'' @ nl) [], d))"

definition git_init :: "dir_state \<Rightarrow> proc_result \<times> dir_state" where
  "git_init d =
     (case repo d of
        None \<Rightarrow>
          (Exited 0 (''Initialized empty Git repository'' @ nl) [],
           d\<lparr>repo := Some \<lparr>remotes = [], config = [], index = [], history = [],
                             current_branch = init_branch d, branches = []\<rparr>\<rparr>)
      | Some r \<Rightarrow> (Exited 0 (''Reinitialized existing Git repository'' @ nl) [], d))"

definition git_remote_add :: "string \<Rightarrow> string \<Rightarrow> dir_state \<Rightarrow> proc_result \<times> dir_state" where
  "git_remote_add name url d =
     with_repo d (\<lambda>r.
       if name \<in> fst ` set (remotes r) then
         (Exited 3 [] (''error: remote '' @ name @ '' already exists.'' @ nl), d)
       else (Exited 0 [] [], d\<lparr>repo := Some (r\<lparr>remotes := remotes r @ [(name, url)]\<rparr>)\<rparr>))"

definition remote_lines :: "(string \<times> string) list \<Rightarrow> string" where
  "remote_lines rs =
     concat (map (\<lambda>(name, url). name @ [CHR 0x09] @ url @ '' (fetch)'' @ nl
                                  @ name @ [CHR 0x09] @ url @ '' (push)'' @ nl) rs)"

definition git_remote_v :: "dir_state \<Rightarrow> proc_result \<times> dir_state" where
  "git_remote_v d = with_repo d (\<lambda>r. (Exited 0 (remote_lines (remotes r)) [], d))"

definition git_remote_set_url ::
  "string \<Rightarrow> string \<Rightarrow> dir_state \<Rightarrow> proc_result \<times> dir_state" where
  "git_remote_set_url name url d =
     with_repo d (\<lambda>r.
       if name \<in> fst ` set (remotes r) then
         (Exited 0 [] [], d\<lparr>repo := Some (r\<lparr>remotes := assoc_set name url (remotes r)\<rparr>)\<rparr>)
       else (Exited 2 [] (''error: No such remote '' @ apos @ name @ apos @ nl), d))"

text \<open>Reading a key: the value and a newline, or return code 1 and no output when unset.\<close>

definition git_config_get :: "string \<Rightarrow> dir_state \<Rightarrow> proc_result \<times> dir_state" where
  "git_config_get key d =
     (case repo d of
        None \<Rightarrow> (Exited 1 [] [], d)
      | Some r \<Rightarrow>
          (case map_of (config r) key of
             None \<Rightarrow> (Exited 1 [] [], d)
           | Some v \<Rightarrow> (Exited 0 (v @ nl) [], d)))"

definition git_config_set :: "string \<Rightarrow> string \<Rightarrow> dir_state \<Rightarrow> proc_result \<times> dir_state" where
  "git_config_set key v d =
     (case repo d of
        None \<Rightarrow> (Exited 128 [] (''fatal: not in a git directory'' @ nl), d)
      | Some r \<Rightarrow> (Exited 0 [] [], d\<lparr>repo := Some (r\<lparr>config := assoc_set key v (config r)\<rparr>)\<rparr>))"

text \<open>
  \<^verbatim>\<open>git credential approve\<close> hands what it reads to the configured helpers; the
  \<^verbatim>\<open>cache\<close> helper keeps it in the memory of a daemon.
\<close>

definition git_credential_approve ::
  "string option \<Rightarrow> dir_state \<Rightarrow> proc_result \<times> dir_state" where
  "git_credential_approve inp d =
     (case repo d of
        None \<Rightarrow> (Exited 0 [] [], d)
      | Some r \<Rightarrow>
          if map_of (config r) ''credential.helper'' = Some ''cache'' then
            (Exited 0 [] [],
             d\<lparr>credential_cache := credential_cache d @ [case inp of None \<Rightarrow> [] | Some i \<Rightarrow> i]\<rparr>)
          else (Exited 0 [] [], d))"

definition git_add_all :: "dir_state \<Rightarrow> proc_result \<times> dir_state" where
  "git_add_all d = with_repo d (\<lambda>r. (Exited 0 [] [], d\<lparr>repo := Some (r\<lparr>index := files d\<rparr>)\<rparr>))"

text \<open>
  \<^verbatim>\<open>git reset HEAD <path>\<close>. In a repository without a commit \<^verbatim>\<open>HEAD\<close> names no
  revision: git then takes both words as paths, and stops unless a file called
  \<^verbatim>\<open>HEAD\<close> exists. With a commit, the index entry of the path is put back to what the
  last commit has: removed when the commit does not have the path.
\<close>

definition outside_repository :: "string \<Rightarrow> bool" where
  "outside_repository path = (case components path of [] \<Rightarrow> False | p # ps \<Rightarrow> p = ''..'')"

definition git_reset_head :: "string \<Rightarrow> dir_state \<Rightarrow> proc_result \<times> dir_state" where
  "git_reset_head path d =
     with_repo d (\<lambda>r.
       case history r of
         [] \<Rightarrow>
           if ''HEAD'' \<in> set (files d) \<and> \<not> outside_repository path then
             (Exited 0 [] [],
              d\<lparr>repo := Some (r\<lparr>index := removeAll path (removeAll ''HEAD'' (index r))\<rparr>)\<rparr>)
           else
             (Exited 128 []
                (''fatal: ambiguous argument '' @ apos @ ''HEAD'' @ apos
                   @ '': unknown revision or path not in the working tree.'' @ nl), d)
       | tree # older \<Rightarrow>
           if outside_repository path then
             (Exited 128 [] (''fatal: '' @ path @ '': '' @ apos @ path @ apos
                               @ '' is outside repository'' @ nl), d)
           else
             (Exited 0 [] [],
              d\<lparr>repo := Some (r\<lparr>index := (if path \<in> set tree then List.insert path (index r)
                                                else removeAll path (index r))\<rparr>)\<rparr>))"

text \<open>
  \<^verbatim>\<open>git commit -m\<close>: return code 1, the text on standard output, when the index equals
  the last commit's tree (an empty tree when there is no commit).
\<close>

definition git_commit :: "string \<Rightarrow> dir_state \<Rightarrow> proc_result \<times> dir_state" where
  "git_commit msg d =
     with_repo d (\<lambda>r.
       if set (index r) = set (case history r of [] \<Rightarrow> [] | tree # older \<Rightarrow> tree) then
         (Exited 1 (''nothing to commit'' @ nl) [], d)
       else
         (Exited 0 [] [],
          d\<lparr>repo := Some (r\<lparr>history := index r # history r,
                                branches := List.insert (current_branch r) (branches r)\<rparr>)\<rparr>))"

definition git_checkout_b :: "string \<Rightarrow> dir_state \<Rightarrow> proc_result \<times> dir_state" where
  "git_checkout_b b d =
     with_repo d (\<lambda>r.
       if b \<in> set (branches r) then
         (Exited 128 [] (''fatal: a branch named '' @ apos @ b @ apos @ '' already exists'' @ nl), d)
       else
         (Exited 0 [] [],
          d\<lparr>repo := Some (r\<lparr>current_branch := b,
                                branches := (if history r = [] then branches r
                                             else b # branches r)\<rparr>)\<rparr>))"

definition git_push :: "string \<Rightarrow> string \<Rightarrow> dir_state \<Rightarrow> proc_result \<times> dir_state" where
  "git_push remote b d =
     with_repo d (\<lambda>r.
       case map_of (remotes r) remote of
         None \<Rightarrow>
           (Exited 128 [] (''fatal: '' @ apos @ remote @ apos
                             @ '' does not appear to be a git repository'' @ nl), d)
       | Some url \<Rightarrow>
           if b \<notin> set (branches r) then
             (Exited 1 [] (''error: src refspec '' @ b @ '' does not match any'' @ nl), d)
           else if \<not> remote_reachable d then
             (Exited 128 [] (''fatal: unable to access '' @ apos @ url @ apos @ nl), d)
           else (Exited 0 [] [], d\<lparr>pushed := pushed d @ [(url, b)]\<rparr>))"

definition git_usage :: "dir_state \<Rightarrow> proc_result \<times> dir_state" where
  "git_usage d = (Exited 129 [] (''usage: git'' @ nl), d)"

definition git :: "call \<Rightarrow> dir_state \<Rightarrow> proc_result \<times> dir_state" where
  "git c d =
     (case argv c of
        [] \<Rightarrow> (Raised OSError, d)
      | prog # args \<Rightarrow>
          if prog \<noteq> ''git'' then (Raised OSError, d)
          else
            (case args of
               [a] \<Rightarrow> if a = ''init'' then git_init d else git_usage d
             | [a, b] \<Rightarrow>
                 if a = ''rev-parse'' \<and> b = ''--is-inside-work-tree'' then git_rev_parse d
                 else if a = ''remote'' \<and> b = ''-v'' then git_remote_v d
                 else if a = ''config'' then git_config_get b d
                 else if a = ''credential'' \<and> b = ''approve'' then
                   git_credential_approve (stdin c) d
                 else if a = ''add'' \<and> b = ''.'' then git_add_all d
                 else git_usage d
             | [a, b, x] \<Rightarrow>
                 if a = ''config'' then git_config_set b x d
                 else if a = ''reset'' \<and> b = ''HEAD'' then git_reset_head x d
                 else if a = ''commit'' \<and> b = ''-m'' then git_commit x d
                 else if a = ''checkout'' \<and> b = ''-b'' then git_checkout_b x d
                 else git_usage d
             | [a, b, x, y] \<Rightarrow>
                 if a = ''remote'' \<and> b = ''add'' then git_remote_add x y d
                 else if a = ''remote'' \<and> b = ''set-url'' then git_remote_set_url x y d
                 else if a = ''config'' \<and> b = ''--local'' then git_config_set x y d
                 else if a = ''push'' \<and> b = ''-u'' then git_push x y d
                 else git_usage d
             | _ \<Rightarrow> git_usage d))"

text \<open>
  The program on the reference tool, run from inside a directory whose absolute path is
  \<open>root\<close>: paths are taken as absolute already; the files are those of the directory and
  the files \<open>outside\<close> it.
\<close>

definition git_sys :: "string \<Rightarrow> string list \<Rightarrow> string \<Rightarrow> dir_state sys" where
  "git_sys root outside script =
     \<lparr>spawn = git, abspath = (\<lambda>p. p),
      isfile = (\<lambda>d p. p \<in> set (map (\<lambda>f. root @ ''/'' @ f) (files d)) \<or> p \<in> set outside),
      argv0 = script\<rparr>"

text \<open>A directory that was never under version control, holding the given files.\<close>

definition fresh_dir :: "string list \<Rightarrow> dir_state" where
  "fresh_dir fs =
     \<lparr>repo = None, files = fs, init_branch = ''main'', credential_cache = [],
      remote_reachable = True, pushed = []\<rparr>"

section \<open>Vocabulary of the properties\<close>

text \<open>
  The argument vectors of the processes spawned so far, and names for the commands of the
  pipeline.
\<close>

definition argvs :: "'g world \<Rightarrow> string list list" where
  "argvs w = map argv (calls w)"

definition cmd_cred_config :: "string list" where
  "cmd_cred_config = [''git'', ''config'', ''--local'', ''credential.helper'', ''cache'']"

definition cmd_cred_approve :: "string list" where
  "cmd_cred_approve = [''git'', ''credential'', ''approve'']"

definition cmd_add :: "string list" where
  "cmd_add = [''git'', ''add'', ''.'']"

definition cmd_reset :: "string \<Rightarrow> string list" where
  "cmd_reset r = [''git'', ''reset'', ''HEAD'', r]"

definition cmd_commit :: "string list" where
  "cmd_commit = [''git'', ''commit'', ''-m'', ''Initial commit from auto-upload script'']"

definition cmd_checkout :: "string \<Rightarrow> string list" where
  "cmd_checkout b = [''git'', ''checkout'', ''-b'', b]"

definition cmd_push :: "string \<Rightarrow> string list" where
  "cmd_push b = [''git'', ''push'', ''-u'', ''origin'', b]"

definition early_commands :: "string \<Rightarrow> string list list" where
  "early_commands repo_url =
     [[''git'', ''rev-parse'', ''--is-inside-work-tree''], [''git'', ''init''],
      [''git'', ''remote'', ''add'', ''origin'', repo_url], [''git'', ''remote'', ''-v''],
      [''git'', ''remote'', ''set-url'', ''origin'', repo_url],
      [''git'', ''config'', ''user.name''],
      [''git'', ''config'', ''user.name'', ''GitHub Auto Uploader''],
      [''git'', ''config'', ''user.email''],
      [''git'', ''config'', ''user.email'', ''auto-uploader@example.com'']]"

definition late_commands :: "string \<Rightarrow> string option \<Rightarrow> bool \<Rightarrow> string list list" where
  "late_commands branch unstaged new_branch =
     [cmd_add] @ (case unstaged of None \<Rightarrow> [] | Some r \<Rightarrow> [cmd_reset r]) @ [cmd_commit]
       @ (if new_branch then [cmd_checkout branch] else []) @ [cmd_push branch]"

definition late_shape :: "string \<Rightarrow> string list list \<Rightarrow> bool" where
  "late_shape branch s \<longleftrightarrow> (\<exists>unstaged new_branch. s = late_commands branch unstaged new_branch)"

text \<open>A run of the whole pipeline on the reference tool: a directory never put under
  version control, holding one file and the script itself, published on the default
  branch.\<close>

definition demo_sys :: "dir_state sys" where
  "demo_sys = git_sys ''/home/u/proj'' [] ''/home/u/proj/app.py''"

definition demo_run :: "flow \<times> dir_state world" where
  "demo_run =
     setup_and_push_repo demo_sys ''https://github.com/u/demo.git'' ''/home/u/proj'' ''main''
       (Some ''tok'') (init_world (fresh_dir [''a.txt'', ''app.py'']))"

text \<open>
  A path lies under a directory when the components of the directory are the first
  components of the path.
\<close>

definition under :: "string \<Rightarrow> string \<Rightarrow> bool" where
  "under dir path \<longleftrightarrow> prefix (components dir) (components path)"

text \<open>The script in a sibling directory whose name starts with the name of the directory.\<close>

definition sibling_sys :: "dir_state sys" where
  "sibling_sys = git_sys ''/home/u/proj'' [''/home/u/proj2/app.py''] ''/home/u/proj2/app.py''"

text \<open>
  A test double of the VCS tool: every command succeeds with no output, except the listed
  ones, which fail. It has no state.
\<close>

definition scripted_sys :: "string list list \<Rightarrow> unit sys" where
  "scripted_sys failing =
     \<lparr>spawn = (\<lambda>c g. (if argv c \<in> set failing then Exited 1 [] ''error'' else Exited 0 [] [], g)),
      abspath = (\<lambda>p. p), isfile = (\<lambda>g p. False), argv0 = ''app.py''\<rparr>"

text \<open>The warning of line 140.\<close>

definition credential_warning :: string where
  "credential_warning =
     warning_mark @ '' Warning: Failed to setup credentials helper. You may be prompted for credentials.''"

text \<open>The tool on which the configuration of the credential helper fails.\<close>

definition no_helper_sys :: "unit sys" where
  "no_helper_sys = scripted_sys [[''git'', ''config'', ''--local'', ''credential.helper'', ''cache'']]"



text \<open>
  The diagnostics of the tool in a trace: the stripped standard error of every command
  that exited with a non-zero code.
\<close>

definition diagnostics :: "(call \<times> proc_result) list \<Rightarrow> string list" where
  "diagnostics tr =
     concat (map (\<lambda>(c, r). case r of Exited rc out err \<Rightarrow> (if rc = 0 then [] else [strip err])
                                     | Raised e \<Rightarrow> []) tr)"

text \<open>
  The fixed beginnings of the failure messages, each followed in the source by the
  diagnostic of the tool.
\<close>

definition failure_prefixes :: "string list" where
  "failure_prefixes =
     [cross_mark @ '' Failed to initialize git repository: '',
      cross_mark @ '' Failed to update remote: '',
      cross_mark @ '' Failed to add remote: '',
      cross_mark @ '' Failed to add files: '',
      cross_mark @ '' Failed to commit: '',
      cross_mark @ '' Failed to create branch: '',
      cross_mark @ '' Failed to push to GitHub: '']"


text \<open>
  The failure messages for given diagnostics.
\<close>

definition failure_lines :: "string list \<Rightarrow> string list" where
  "failure_lines ds = concat (map (\<lambda>p. map (\<lambda>d. p @ d) ds) failure_prefixes)"






text \<open>Two providers: one that refuses the creation with a message, one whose answer is
  not JSON. And the arguments of a run where nothing is asked of the operator.\<close>

definition rejecting_provider :: "request \<Rightarrow> http_result" where
  "rejecting_provider req =
     Response 422 (Some (JObj [(''message'', JStr ''Repository creation failed.'')]))"

definition gateway_error :: "request \<Rightarrow> http_result" where
  "gateway_error req = Response 502 None"


text \<open>Nothing was spawned and the outside state is the same.\<close>

definition same_outside :: "'g world \<Rightarrow> 'g world \<Rightarrow> bool" where
  "same_outside w w' \<longleftrightarrow> trace w' = trace w \<and> vcs w' = vcs w"

text \<open>The bytes that can belong to a white-space character: those of the ASCII range that
  are one, and every byte outside ASCII.\<close>

definition space_byte :: "char \<Rightarrow> bool" where
  "space_byte c \<longleftrightarrow> isspace c \<or> 128 \<le> (of_char c :: nat)"

text \<open>
  What the claims about the local directory speak of: the value of a configuration key,
  the URL of the remote \<^verbatim>\<open>origin\<close>. \<open>configured\<close> holds of a value that is set and
  not blank: not empty and not made of white space only.
\<close>

definition config_value :: "dir_state \<Rightarrow> string \<Rightarrow> string option" where
  "config_value d key = (case repo d of None \<Rightarrow> None | Some r \<Rightarrow> map_of (config r) key)"

definition origin_url :: "dir_state \<Rightarrow> string option" where
  "origin_url d = (case repo d of None \<Rightarrow> None | Some r \<Rightarrow> map_of (remotes r) ''origin'')"

definition configured :: "string option \<Rightarrow> bool" where
  "configured v \<longleftrightarrow> (case v of None \<Rightarrow> False | Some n \<Rightarrow> strip n \<noteq> [])"

text \<open>
  What stages 1 to 3 do to a directory on the reference tool, as functions of its state:
  make it a working tree, point \<^verbatim>\<open>origin\<close> at the URL, fill in a key that is not
  configured.
\<close>

definition init_if_needed :: "dir_state \<Rightarrow> dir_state" where
  "init_if_needed d =
     (case repo d of
        None \<Rightarrow> d\<lparr>repo := Some \<lparr>remotes = [], config = [], index = [], history = [],
                                  current_branch = init_branch d, branches = []\<rparr>\<rparr>
      | Some r \<Rightarrow> d)"

definition set_origin :: "string \<Rightarrow> dir_state \<Rightarrow> dir_state" where
  "set_origin u d =
     (case repo d of
        None \<Rightarrow> d
      | Some r \<Rightarrow> d\<lparr>repo := Some (r\<lparr>remotes := assoc_set ''origin'' u (remotes r)\<rparr>)\<rparr>)"

definition set_default :: "string \<Rightarrow> string \<Rightarrow> dir_state \<Rightarrow> dir_state" where
  "set_default key placeholder d =
     (case repo d of
        None \<Rightarrow> d
      | Some r \<Rightarrow>
          if configured (map_of (config r) key) then d
          else d\<lparr>repo := Some (r\<lparr>config := assoc_set key placeholder (config r)\<rparr>)\<rparr>)"

definition prepared :: "string \<Rightarrow> dir_state \<Rightarrow> dir_state" where
  "prepared u d =
     set_default ''user.email'' ''auto-uploader@example.com''
       (set_default ''user.name'' ''GitHub Auto Uploader'' (set_origin u (init_if_needed d)))"

text \<open>A working tree that was set up by hand: it has two remotes and an identity.\<close>

definition elsewhere_dir :: dir_state where
  "elsewhere_dir =
     \<lparr>repo = Some \<lparr>remotes = [(''upstream'', ''https://example.org/up.git''),
                              (''origin'', ''https://example.org/old.git'')],
                   config = [(''user.name'', ''Ann''), (''user.email'', ''ann@example.org'')],
                   index = [], history = [], current_branch = ''main'', branches = []\<rparr>,
      files = [''a.txt''], init_branch = ''main'', credential_cache = [],
      remote_reachable = True, pushed = []\<rparr>"



text \<open>A run on a tool where the approval of the credential exits with return code 1 and
  every other command succeeds.\<close>

definition failed_approval_run :: "flow \<times> unit world" where
  "failed_approval_run =
     setup_and_push_repo (scripted_sys [[''git'', ''credential'', ''approve'']])
       ''https://github.com/u/demo.git'' ''/home/u/proj'' ''main'' (Some ''tok'') (init_world ())"

text \<open>A working tree whose user name is set to a blank value (one space).\<close>

definition blank_name_dir :: dir_state where
  "blank_name_dir =
     \<lparr>repo = Some \<lparr>remotes = [], config = [(''user.name'', '' ''), (''user.email'', ''ann@example.org'')],
                   index = [], history = [], current_branch = ''main'', branches = []\<rparr>,
      files = [''a.txt''], init_branch = ''main'', credential_cache = [],
      remote_reachable = True, pushed = []\<rparr>"

section \<open>How the trace grows\<close>

lemmas cmd_defs = cmd_cred_config_def cmd_cred_approve_def cmd_add_def cmd_reset_def
  cmd_commit_def cmd_checkout_def cmd_push_def


lemma argvs_print [simp]: "argvs (print l w) = argvs w"
  by (simp add: argvs_def calls_def print_def)

lemma run_git_command_argvs:
  "run_git_command sys cmd dir w = (r, w') \<Longrightarrow> argvs w' = argvs w @ [cmd]"
  by (auto simp: run_git_command_def do_spawn_def argvs_def calls_def
           split: prod.splits proc_result.splits if_splits)














lemma late_shape_simps [simp]:
  "late_shape b [cmd_add, cmd_commit, cmd_push b]"
  "late_shape b [cmd_add, cmd_reset r, cmd_commit, cmd_push b]"
  "late_shape b [cmd_add, cmd_commit, cmd_checkout b, cmd_push b]"
  "late_shape b [cmd_add, cmd_reset r, cmd_commit, cmd_checkout b, cmd_push b]"
  unfolding late_shape_def late_commands_def
     apply (rule exI[of _ None], rule exI[of _ False], simp)
    apply (rule exI[of _ "Some r"], rule exI[of _ False], simp)
   apply (rule exI[of _ None], rule exI[of _ True], simp)
  apply (rule exI[of _ "Some r"], rule exI[of _ True], simp)
  done

lemma push_neq [simp]:
  "cmd_push b \<noteq> cmd_add" "cmd_push b \<noteq> cmd_reset r" "cmd_push b \<noteq> cmd_commit"
  "cmd_push b \<noteq> cmd_checkout b'" "cmd_push b \<noteq> cmd_cred_config" "cmd_push b \<noteq> cmd_cred_approve"
  "cmd_push b \<notin> set (early_commands u)"
  by (simp_all add: cmd_defs early_commands_def)


lemma argvs_init [simp]: "argvs (init_world g) = []"
  by (simp add: argvs_def calls_def init_world_def)

section \<open>C3: when the credential is registered\<close>




section \<open>C10: the guard is a test on strings\<close>

text \<open>
  C10: the self-exclusion guard compares the two absolute paths as strings. For a script
  that is a file, whose path starts with the path of the directory as a string and that
  does not lie under the directory, the guard fires all the same: the reset is issued, for
  the path that \<^verbatim>\<open>relpath\<close> gives.
\<close>

theorem guard_fires_on_string_prefix:
  assumes "script_path = abspath sys (argv0 sys)"
    and "isfile sys (vcs w) script_path"
    and "prefix abs_directory script_path"
    and "\<not> under abs_directory script_path"
  shows "\<exists>r. relpath sys script_path abs_directory = Val r
           \<and> argvs (snd (exclude_script sys abs_directory w)) = argvs w @ [cmd_reset r]"
proof -
  from assms(4) have ne: "script_path \<noteq> []"
    using assms(3) by (auto simp: under_def)
  then have "\<exists>r. relpath sys script_path abs_directory = Val r"
    by (simp add: relpath_def Let_def)
  then obtain r where r: "relpath sys script_path abs_directory = Val r" ..
  obtain f w' where e: "exclude_script sys abs_directory w = (f, w')"
    by (cases "exclude_script sys abs_directory w")
  from e r assms(1,2,3) have "argvs w' = argvs w @ [cmd_reset r]"
    unfolding exclude_script_def
    by (auto simp: Let_def cmd_defs split: prod.splits res.splits dest!: run_git_command_argvs)
  with r e show ?thesis by simp
qed

theorem guard_fires_on_string_prefix_witness:
  "''/home/u/proj2/app.py'' = abspath sibling_sys (argv0 sibling_sys)
   \<and> isfile sibling_sys (vcs (init_world (fresh_dir [''a.txt'']))) ''/home/u/proj2/app.py''
   \<and> prefix ''/home/u/proj'' ''/home/u/proj2/app.py''
   \<and> \<not> under ''/home/u/proj'' ''/home/u/proj2/app.py''
   \<and> argvs (snd (exclude_script sibling_sys ''/home/u/proj'' (init_world (fresh_dir [''a.txt'']))))
       = [[''git'', ''reset'', ''HEAD'', ''../proj2/app.py'']]"
proof -
  have a: "''/home/u/proj2/app.py'' = abspath sibling_sys (argv0 sibling_sys)" by code_simp
  have b: "isfile sibling_sys (vcs (init_world (fresh_dir [''a.txt'']))) ''/home/u/proj2/app.py''"
    by code_simp
  have c: "prefix ''/home/u/proj'' ''/home/u/proj2/app.py''" by code_simp
  have d: "\<not> under ''/home/u/proj'' ''/home/u/proj2/app.py''" by code_simp
  have r: "relpath sibling_sys ''/home/u/proj2/app.py'' ''/home/u/proj'' = Val ''../proj2/app.py''"
    by code_simp
  show ?thesis
    using a b c d guard_fires_on_string_prefix [OF a b c d] r by (simp add: cmd_reset_def)
qed

section \<open>C9: a failed registration of the credential\<close>

text \<open>
  C9 says that when the registration of the credential fails, the pipeline emits a warning
  and continues. On a tool where \<^verbatim>\<open>git credential approve\<close> exits with return code 1
  (its eighth command, fed the credential input), the registration has failed and the
  pipeline continues, but no warning is emitted: lines 69 to 77 never read the return code
  of that process, and the \<^verbatim>\<open>except\<close> of line 78 is not reached by a process that
  exits. The console holds the five messages of success only, and the pipeline returns
  \<open>True\<close>.
\<close>

theorem failed_approval_gives_no_warning:
  "trace (snd failed_approval_run) ! 7
     = (\<lparr>argv = [''git'', ''credential'', ''approve''], cwd = ''/home/u/proj'',
         stdin = Some (credential_input ''tok'')\<rparr>, Exited 1 [] ''error'')
   \<and> console (snd failed_approval_run)
       = [info_mark @ '' Git repository already initialized'',
          check_mark @ '' Remote added'',
          check_mark @ '' Files added to staging area'',
          check_mark @ '' Changes committed'',
          check_mark @ '' Successfully pushed to GitHub branch '' @ apos @ ''main'' @ apos]
   \<and> fst failed_approval_run = Return True"
  by code_simp

text \<open>
  The failure that the helper does report (the configuration of the credential helper
  failed, or starting the approval raised \<^verbatim>\<open>SubprocessError\<close>) is handled as the claim
  says: the pipeline prints the warning and continues with stages 5 to 9.
\<close>

lemma registration_failure_not_fatal:
  assumes "stages_1_3 sys repo_url (abspath sys directory) w = (Proceed, w1)"
    and "setup_git_credentials_helper sys t (abspath sys directory) w1 = (Val False, w2)"
    and "t \<noteq> []"
  shows "setup_and_push_repo sys repo_url directory branch (Some t) w
           = stages_5_9 sys branch (abspath sys directory) (print credential_warning w2)"
  using assms
  by (simp add: setup_and_push_repo_def Let_def then_stage_def inject_credential_def
        credential_warning_def)

lemma registration_failure_not_fatal_witness:
  "fst (stages_1_3 no_helper_sys ''https://github.com/u/demo.git'' ''/home/u/proj'' (init_world ()))
     = Proceed
   \<and> fst (setup_git_credentials_helper no_helper_sys ''tok'' ''/home/u/proj''
        (snd (stages_1_3 no_helper_sys ''https://github.com/u/demo.git'' ''/home/u/proj'' (init_world ()))))
     = Val False
   \<and> ''tok'' \<noteq> []
   \<and> setup_and_push_repo no_helper_sys ''https://github.com/u/demo.git'' ''/home/u/proj'' ''main''
       (Some ''tok'') (init_world ())
       = stages_5_9 no_helper_sys ''main'' ''/home/u/proj''
           (print credential_warning
              (snd (setup_git_credentials_helper no_helper_sys ''tok'' ''/home/u/proj''
                 (snd (stages_1_3 no_helper_sys ''https://github.com/u/demo.git'' ''/home/u/proj''
                         (init_world ()))))))
   \<and> fst (setup_and_push_repo no_helper_sys ''https://github.com/u/demo.git'' ''/home/u/proj''
            ''main'' (Some ''tok'') (init_world ())) = Return True"
proof -
  let ?w1 = "snd (stages_1_3 no_helper_sys ''https://github.com/u/demo.git'' ''/home/u/proj''
                    (init_world ()))"
  let ?w2 = "snd (setup_git_credentials_helper no_helper_sys ''tok'' ''/home/u/proj'' ?w1)"
  have d: "abspath no_helper_sys ''/home/u/proj'' = ''/home/u/proj''" by code_simp
  have a': "fst (stages_1_3 no_helper_sys ''https://github.com/u/demo.git'' ''/home/u/proj''
                   (init_world ())) = Proceed"
    by code_simp
  have b': "fst (setup_git_credentials_helper no_helper_sys ''tok'' ''/home/u/proj'' ?w1) = Val False"
    by code_simp
  have a: "stages_1_3 no_helper_sys ''https://github.com/u/demo.git''
             (abspath no_helper_sys ''/home/u/proj'') (init_world ()) = (Proceed, ?w1)"
    unfolding d by (rule prod_eqI) (simp_all add: a')
  have b: "setup_git_credentials_helper no_helper_sys ''tok'' (abspath no_helper_sys ''/home/u/proj'') ?w1
             = (Val False, ?w2)"
    unfolding d by (rule prod_eqI) (simp_all add: b')
  have t: "''tok'' \<noteq> []" by simp
  have r: "fst (setup_and_push_repo no_helper_sys ''https://github.com/u/demo.git'' ''/home/u/proj''
                  ''main'' (Some ''tok'') (init_world ())) = Return True"
    by code_simp
  have c: "setup_and_push_repo no_helper_sys ''https://github.com/u/demo.git'' ''/home/u/proj'' ''main''
             (Some ''tok'') (init_world ())
           = stages_5_9 no_helper_sys ''main'' ''/home/u/proj'' (print credential_warning ?w2)"
    using registration_failure_not_fatal [OF a b t, of "''main''"] unfolding d .
  show ?thesis
    by (intro conjI) (rule a' b' t c r)+
qed

text \<open>
  The outcome of the command that writes the placeholder identity is not looked at either
  (lines 130 and 134): on a tool where that command fails, the pipeline goes on and returns
  \<open>True\<close>.
\<close>

lemma identity_write_failure_not_fatal:
  "fst (setup_and_push_repo
          (scripted_sys [[''git'', ''config'', ''user.name'', ''GitHub Auto Uploader'']])
          ''https://github.com/u/demo.git'' ''/home/u/proj'' ''main'' (Some ''tok'') (init_world ()))
     = Return True
   \<and> trace (snd (setup_and_push_repo
          (scripted_sys [[''git'', ''config'', ''user.name'', ''GitHub Auto Uploader'']])
          ''https://github.com/u/demo.git'' ''/home/u/proj'' ''main'' (Some ''tok'') (init_world ()))) ! 3
     = (\<lparr>argv = [''git'', ''config'', ''user.name'', ''GitHub Auto Uploader''],
         cwd = ''/home/u/proj'', stdin = None\<rparr>, Exited 1 [] ''error'')"
  by code_simp

section \<open>C1: where the token goes\<close>

lemma diagnostics_append [simp]: "diagnostics (a @ b) = diagnostics a @ diagnostics b"
  by (simp add: diagnostics_def)



lemma failure_lines_single:
  "set (failure_lines [b]) = (\<lambda>p. p @ b) ` set failure_prefixes"
  by (auto simp: failure_lines_def)

lemma failure_lines_Nil [simp]: "failure_lines [] = []"
  by (simp add: failure_lines_def)


lemma trace_print [simp]: "trace (print l w) = trace w"
  by (simp add: print_def)

lemma console_print [simp]: "console (print l w) = console w @ [l]"
  by (simp add: print_def)



lemma failure_lines_append [simp]:
  "set (failure_lines (a @ b)) = set (failure_lines a) \<union> set (failure_lines b)"
  by (auto simp: failure_lines_def)

















lemma calls_print [simp]: "calls (print l w) = calls w"
  by (simp add: calls_def print_def)










































section \<open>C8: a failed creation\<close>

lemma keep_print [simp]: "trace (print l w) = trace w" "vcs (print l w) = vcs w"
  by (simp_all add: print_def)

lemma same_outside_refl [simp]: "same_outside w w"
  by (simp add: same_outside_def)

lemma same_outside_print [simp]:
  "same_outside w (print l w') = same_outside w w'"
  "same_outside (print l w) w' = same_outside w w'"
  by (simp_all add: same_outside_def)

lemma same_outside_trans: "same_outside a b \<Longrightarrow> same_outside b c \<Longrightarrow> same_outside a c"
  by (simp add: same_outside_def)













section \<open>C4: the provider client\<close>

text \<open>
  C4 says that for every status other than 201 the function reports an error whose message
  is the member \<^verbatim>\<open>message\<close> of the body, or a default when the body has none. On an
  answer with status 502 whose body is not JSON, line 41 prints the status code and
  \<^verbatim>\<open>response.json()\<close> of line 42 raises: the function neither returns \<^verbatim>\<open>None\<close>, as
  its docstring says it does when it is not successful, nor prints the default message
  \<^verbatim>\<open>Unknown error\<close> that line 42 provides for a body without a message.
\<close>

theorem non_json_body_raises:
  "fst (create_github_repo gateway_error ''tok'' ''demo'' [] False (init_world ()))
     = Exc JSONDecodeError
   \<and> console (snd (create_github_repo gateway_error ''tok'' ''demo'' [] False (init_world ())))
       = [cross_mark @ '' Failed to create repository. Status code: 502'']"
  by code_simp

text \<open>
  On a body that is JSON the function does what the claim says: it returns the decoded body
  when the status is 201; for any other status and a body that is a JSON object it returns
  \<^verbatim>\<open>None\<close>, after printing the status code and the member \<^verbatim>\<open>message\<close> of the body,
  or \<^verbatim>\<open>Unknown error\<close> when the body has none.
\<close>

lemma create_github_repo_by_status:
  assumes "post (create_request token repo_name description private) = Response sc (Some j)"
  shows "(sc = 201 \<longrightarrow>
            fst (create_github_repo post token repo_name description private w) = Val j)
         \<and> (sc \<noteq> 201 \<longrightarrow> (\<forall>kvs. j = JObj kvs \<longrightarrow>
              create_github_repo post token repo_name description private w
                = (Val (JVal JNull),
                   print (''Error message: ''
                            @ py_str (case map_of (rev kvs) ''message'' of
                                        None \<Rightarrow> JStr ''Unknown error'' | Some m \<Rightarrow> m))
                     (print (cross_mark @ '' Failed to create repository. Status code: ''
                               @ str_int sc) w))))"
  using assms
  by (simp add: create_github_repo_def response_json_def Let_def)

lemma create_github_repo_by_status_witness:
  "rejecting_provider (create_request ''tok'' ''demo'' [] False)
     = Response 422 (Some (JObj [(''message'', JStr ''Repository creation failed.'')]))
   \<and> (422::int) \<noteq> 201
   \<and> create_github_repo rejecting_provider ''tok'' ''demo'' [] False (init_world ())
       = (Val (JVal JNull),
          print ''Error message: Repository creation failed.''
            (print (cross_mark @ '' Failed to create repository. Status code: 422'')
               (init_world ())))"
proof -
  have h: "rejecting_provider (create_request ''tok'' ''demo'' [] False)
     = Response 422 (Some (JObj [(''message'', JStr ''Repository creation failed.'')]))"
    by (simp add: rejecting_provider_def)
  have s: "str_int 422 = ''422''" by code_simp
  show ?thesis
    using h create_github_repo_by_status [where post = rejecting_provider
        and w = "init_world ()", OF h]
    by (simp add: s)
qed

section \<open>Stages 1 to 3 on the reference tool\<close>

lemma git_dispatch:
  "git \<lparr>argv = [''git'', ''rev-parse'', ''--is-inside-work-tree''], cwd = d, stdin = i\<rparr> = git_rev_parse"
  "git \<lparr>argv = [''git'', ''init''], cwd = d, stdin = i\<rparr> = git_init"
  "git \<lparr>argv = [''git'', ''remote'', ''add'', ''origin'', u], cwd = d, stdin = i\<rparr> = git_remote_add ''origin'' u"
  "git \<lparr>argv = [''git'', ''remote'', ''-v''], cwd = d, stdin = i\<rparr> = git_remote_v"
  "git \<lparr>argv = [''git'', ''remote'', ''set-url'', ''origin'', u], cwd = d, stdin = i\<rparr> = git_remote_set_url ''origin'' u"
  "git \<lparr>argv = [''git'', ''config'', key], cwd = d, stdin = i\<rparr> = git_config_get key"
  "git \<lparr>argv = [''git'', ''config'', key, v], cwd = d, stdin = i\<rparr> = git_config_set key v"
  by (rule ext, simp add: git_def)+

lemma space_len_le: "space_len s \<le> length s"
  by (auto simp: space_len_def split: list.splits)

lemma space_len_rev_le: "space_len_rev s \<le> length s"
  by (auto simp: space_len_rev_def split: list.splits)

lemma space_len_append: "0 < space_len u \<Longrightarrow> space_len (u @ v) = space_len u"
  by (auto simp: space_len_def split: list.splits if_splits)

lemma isspace2_bytes: "isspace2 a b \<Longrightarrow> space_byte a \<and> space_byte b"
  by (auto simp: isspace2_def space_byte_def)

lemma isspace3_third:
  "c \<in> set [CHR 0x80, CHR 0x81, CHR 0x82, CHR 0x83, CHR 0x84, CHR 0x85, CHR 0x86,
             CHR 0x87, CHR 0x88, CHR 0x89, CHR 0x8A, CHR 0xA8, CHR 0xA9, CHR 0xAF]
     \<Longrightarrow> space_byte c"
  by (auto simp: space_byte_def)

lemma isspace3_bytes: "isspace3 a b c \<Longrightarrow> space_byte a \<and> space_byte b \<and> space_byte c"
  unfolding isspace3_def
  by (elim disjE conjE) (simp_all add: isspace3_third, simp_all add: space_byte_def)

lemma space_len_bytes: "c \<in> set (take (space_len s) s) \<Longrightarrow> space_byte c"
  by (auto simp: space_len_def space_byte_def[of c] split: list.splits if_splits
      dest: isspace2_bytes isspace3_bytes)

lemma space_len_rev_bytes: "c \<in> set (take (space_len_rev s) s) \<Longrightarrow> space_byte c"
  by (auto simp: space_len_rev_def space_byte_def[of c] split: list.splits if_splits
      dest: isspace2_bytes isspace3_bytes)

lemma drop_spaces_stuck:
  "len (drop_spaces len s) = 0 \<or> length (drop_spaces len s) < len (drop_spaces len s)"
  by (induction len s rule: drop_spaces.induct) (subst (1 2 3) drop_spaces.simps, simp)

lemma drop_spaces_fix:
  "len s = 0 \<or> length s < len s \<Longrightarrow> drop_spaces len s = s"
  by (subst drop_spaces.simps) simp

lemma drop_spaces_decomp:
  "(\<And>s. set (take (len s) s) \<subseteq> W) \<Longrightarrow> \<exists>p. s = p @ drop_spaces len s \<and> set p \<subseteq> W"
proof (induction len s rule: drop_spaces.induct)
  case (1 len s)
  show ?case
  proof (cases "len s = 0 \<or> length s < len s")
    case True
    then show ?thesis by (simp add: drop_spaces_fix)
  next
    case False
    with 1 obtain p where p: "drop (len s) s = p @ drop_spaces len (drop (len s) s)" "set p \<subseteq> W"
      by blast
    have d: "drop_spaces len s = drop_spaces len (drop (len s) s)"
      using False by (subst drop_spaces.simps) simp
    have "s = take (len s) s @ drop (len s) s" by simp
    with p(1) d have "s = (take (len s) s @ p) @ drop_spaces len s" by simp
    moreover have "set (take (len s) s @ p) \<subseteq> W"
      using p(2) "1.prems"[of s] by auto
    ultimately show ?thesis by blast
  qed
qed

lemma lstrip_stuck: "space_len (lstrip s) = 0"
  using drop_spaces_stuck[of space_len s] space_len_le[of "lstrip s"]
  by (auto simp: lstrip_def)

lemma drop_rev_stuck: "space_len_rev (drop_spaces space_len_rev z) = 0"
  using drop_spaces_stuck[of space_len_rev z] space_len_rev_le[of "drop_spaces space_len_rev z"]
  by auto

lemma strip_Nil [simp]: "strip [] = []"
  by (simp add: strip_def lstrip_def rstrip_def drop_spaces_fix space_len_def space_len_rev_def)

lemma strip_decomp:
  "\<exists>p q. x = p @ strip x @ q \<and> set p \<subseteq> Collect space_byte \<and> set q \<subseteq> Collect space_byte"
proof -
  have "\<exists>p. x = p @ drop_spaces space_len x \<and> set p \<subseteq> Collect space_byte"
    by (rule drop_spaces_decomp) (auto dest: space_len_bytes)
  then obtain p where p: "x = p @ lstrip x" "set p \<subseteq> Collect space_byte"
    by (auto simp: lstrip_def)
  have "\<exists>q. rev (lstrip x) = q @ drop_spaces space_len_rev (rev (lstrip x))
          \<and> set q \<subseteq> Collect space_byte"
    by (rule drop_spaces_decomp) (auto dest: space_len_rev_bytes)
  then obtain q where q: "rev (lstrip x) = q @ drop_spaces space_len_rev (rev (lstrip x))"
    "set q \<subseteq> Collect space_byte" by auto
  from q(1) have "lstrip x = strip x @ rev q"
    by (metis rev_append rev_rev_ident rstrip_def strip_def)
  with p q(2) have "x = p @ strip x @ rev q \<and> set p \<subseteq> Collect space_byte
      \<and> set (rev q) \<subseteq> Collect space_byte"
    by simp
  then show ?thesis by blast
qed

lemma strip_idem: "strip (strip y) = strip y"
proof -
  let ?t = "lstrip y"
  let ?z = "drop_spaces space_len_rev (rev ?t)"
  have u: "strip y = rev ?z" by (simp add: strip_def rstrip_def)
  have "\<exists>q. rev ?t = q @ ?z \<and> set q \<subseteq> UNIV"
    by (rule drop_spaces_decomp) simp
  then obtain q where "rev ?t = q @ ?z" by auto
  then have t: "?t = rev ?z @ rev q" by (metis rev_append rev_rev_ident)
  have "space_len (rev ?z) = 0"
  proof (rule ccontr)
    assume "space_len (rev ?z) \<noteq> 0"
    then have "space_len (rev ?z @ rev q) = space_len (rev ?z)" by (simp add: space_len_append)
    with t lstrip_stuck[of y] \<open>space_len (rev ?z) \<noteq> 0\<close> show False by simp
  qed
  then have "lstrip (rev ?z) = rev ?z" by (simp add: lstrip_def drop_spaces_fix)
  moreover have "rstrip (rev ?z) = rev ?z"
    by (simp add: rstrip_def drop_spaces_fix drop_rev_stuck)
  moreover have "rstrip (lstrip y) = rev ?z" by (simp add: rstrip_def)
  ultimately show ?thesis by (simp add: strip_def)
qed

text \<open>A no-break space and an ideographic space are stripped; the two bytes of a letter
  outside ASCII are not.\<close>

lemma strip_examples:
  "strip [CHR 0xC2, CHR 0xA0] = []"
  "strip ([CHR 0xE3, CHR 0x80, CHR 0x80] @ ''Ann'' @ [CHR 0xE2, CHR 0x80, CHR 0x83] @ nl) = ''Ann''"
  "strip [CHR 0xC3, CHR 0xA9] = [CHR 0xC3, CHR 0xA9]"
  by code_simp+

lemma not_space_nl: "\<not> isspace2 a (CHR 0x0A)" "\<not> isspace3 a b (CHR 0x0A)"
  by (simp_all add: isspace2_def isspace3_def)

lemma space_len_snoc_nl: "n \<noteq> [] \<Longrightarrow> space_len n = 0 \<Longrightarrow> space_len (n @ nl) = 0"
  by (auto simp: space_len_def nl_def not_space_nl split: list.splits if_splits)

lemma lstrip_append_nl: "lstrip (n @ nl) = (if lstrip n = [] then [] else lstrip n @ nl)"
  unfolding lstrip_def
proof (induction space_len n rule: drop_spaces.induct)
  case (1 n)
  show ?case
  proof (cases "space_len n = 0")
    case True
    then have f: "drop_spaces space_len n = n" by (simp add: drop_spaces_fix)
    show ?thesis
    proof (cases "n = []")
      case True
      have "drop_spaces space_len nl = drop_spaces space_len []"
        by (subst drop_spaces.simps) (simp add: nl_def space_len_def isspace_def)
      then show ?thesis using True by (simp add: drop_spaces_fix space_len_def)
    next
      case False
      from False True have "space_len (n @ nl) = 0" by (rule space_len_snoc_nl)
      then show ?thesis using f False by (simp add: drop_spaces_fix)
    qed
  next
    case False
    then have k: "0 < space_len n" "space_len n \<le> length n"
      using space_len_le[of n] by simp_all
    then have a: "space_len (n @ nl) = space_len n" by (simp add: space_len_append)
    have "drop_spaces space_len (n @ nl) = drop_spaces space_len (drop (space_len n) n @ nl)"
      using k a by (subst drop_spaces.simps) simp
    moreover have "drop_spaces space_len n = drop_spaces space_len (drop (space_len n) n)"
      using k by (subst drop_spaces.simps) simp
    moreover have "\<not> (space_len n = 0 \<or> length n < space_len n)" using k by simp
    ultimately show ?thesis using 1 by simp
  qed
qed

lemma rstrip_snoc_nl: "rstrip (m @ nl) = rstrip m"
proof -
  have "drop_spaces space_len_rev (CHR 0x0A # rev m) = drop_spaces space_len_rev (rev m)"
    by (subst drop_spaces.simps) (simp add: space_len_rev_def isspace_def)
  then show ?thesis by (simp add: rstrip_def nl_def)
qed

lemma strip_append_nl: "strip (n @ nl) = strip n"
  by (simp add: strip_def lstrip_append_nl rstrip_snoc_nl)

lemma blank_query: "strip (strip (n @ nl)) = [] \<longleftrightarrow> strip n = []"
  by (simp add: strip_idem strip_append_nl)

lemma sublist_between:
  assumes "sublist s x" and "x = p @ t @ q" and "s \<noteq> []"
    and "set s \<inter> set p = {}" and "set s \<inter> set q = {}"
  shows "sublist s t"
proof -
  from assms(1) obtain u v where x: "x = u @ s @ v" by (auto simp: sublist_def)
  with assms(2) have e: "u @ (s @ v) = p @ (t @ q)" by simp
  have "\<exists>w. w @ s @ v = t @ q"
  proof -
    from e have "\<exists>w. u = p @ w \<and> w @ (s @ v) = t @ q \<or> u @ w = p \<and> s @ v = w @ (t @ q)"
      by (simp only: append_eq_append_conv2)
    then consider w where "u = p @ w" "w @ s @ v = t @ q"
      | w where "u @ w = p" "s @ v = w @ t @ q"
      by blast
    then show ?thesis
    proof cases
      case 1
      then show ?thesis by blast
    next
      case 2
      have "w = []"
      proof (rule ccontr)
        assume "w \<noteq> []"
        with 2(2) assms(3) have "hd s = hd w" by (metis hd_append2)
        moreover have "hd w \<in> set p" using \<open>w \<noteq> []\<close> 2(1) by (metis hd_in_set in_set_conv_decomp append.assoc list.set_intros(1) set_append UnI2)
        moreover have "hd s \<in> set s" using assms(3) by simp
        ultimately show False using assms(4) by auto
      qed
      with 2 show ?thesis by auto
    qed
  qed
  then obtain w where "(w @ s) @ v = t @ q" by auto
  then have "\<exists>r. w @ s = t @ r \<and> r @ v = q \<or> (w @ s) @ r = t \<and> v = r @ q"
    by (simp only: append_eq_append_conv2)
  then consider r where "w @ s = t @ r" "r @ v = q" | r where "(w @ s) @ r = t" "v = r @ q"
    by blast
  then show ?thesis
  proof cases
    case 1
    have "r = []"
    proof (rule ccontr)
      assume "r \<noteq> []"
      with 1(1) assms(3) have "last s = last r" by (metis last_appendR)
      moreover have "last r \<in> set q" using \<open>r \<noteq> []\<close> 1(2) by auto
      moreover have "last s \<in> set s" using assms(3) by simp
      ultimately show False using assms(5) by auto
    qed
    with 1 show ?thesis by (auto simp: sublist_def intro: exI[of _ w] )
  next
    case 2
    then show ?thesis by (auto simp: sublist_def)
  qed
qed

lemma remote_lines_append: "remote_lines (xs @ ys) = remote_lines xs @ remote_lines ys"
  by (simp add: remote_lines_def)

lemma origin_bytes: "set ''origin'' \<inter> Collect space_byte = {}"
  by (auto simp: space_byte_def isspace_def)

lemma origin_listed:
  assumes "''origin'' \<in> fst ` set rs"
  shows "sublist ''origin'' (strip (remote_lines rs))"
proof -
  from assms obtain u where "(''origin'', u) \<in> set rs" by auto
  then obtain xs ys where rs: "rs = xs @ (''origin'', u) # ys"
    by (auto simp: in_set_conv_decomp)
  have "\<exists>c. remote_lines rs = remote_lines xs @ ''origin'' @ c"
    unfolding rs remote_lines_append by (simp add: remote_lines_def)
  then have l: "sublist ''origin'' (remote_lines rs)" by (auto simp: sublist_def)
  from strip_decomp[of "remote_lines rs"] obtain p q where
    d: "remote_lines rs = p @ strip (remote_lines rs) @ q"
    and p: "set p \<subseteq> Collect space_byte" and q: "set q \<subseteq> Collect space_byte" by blast
  from l d show ?thesis
  proof (rule sublist_between)
    show "''origin'' \<noteq> []" by simp
    show "set ''origin'' \<inter> set p = {}" using p origin_bytes by blast
    show "set ''origin'' \<inter> set q = {}" using q origin_bytes by blast
  qed
qed

lemma assoc_set_absent: "k \<notin> fst ` set kvs \<Longrightarrow> assoc_set k v kvs = kvs @ [(k, v)]"
  by (induction kvs) auto

lemma map_of_assoc_set: "map_of (assoc_set k v kvs) k' = (if k' = k then Some v else map_of kvs k')"
  by (induction kvs) auto

lemma assoc_set_idem: "assoc_set k v (assoc_set k v kvs) = assoc_set k v kvs"
  by (induction kvs) auto

lemma ensure_vcs_root_git:
  assumes "spawn sys = git"
  shows "fst (ensure_vcs_root sys dir w) = Proceed
         \<and> vcs (snd (ensure_vcs_root sys dir w)) = init_if_needed (vcs w)"
  using assms
  by (cases "repo (vcs w)")
     (simp_all add: ensure_vcs_root_def run_git_command_def do_spawn_def git_dispatch
        git_rev_parse_def git_init_def with_repo_def not_a_repository_def init_if_needed_def
        print_def)

lemma ensure_remote_git:
  assumes "spawn sys = git" and "repo (vcs w) = Some r"
  shows "fst (ensure_remote sys u dir w) = Proceed
         \<and> vcs (snd (ensure_remote sys u dir w)) = set_origin u (vcs w)"
proof (cases "''origin'' \<in> fst ` set (remotes r)")
  case True
  with assms origin_listed[OF True] show ?thesis
    by (simp add: ensure_remote_def run_git_command_def do_spawn_def git_dispatch
        git_remote_add_def git_remote_v_def git_remote_set_url_def with_repo_def
        set_origin_def print_def)
next
  case False
  with assms assoc_set_absent[OF False] show ?thesis
    by (simp add: ensure_remote_def run_git_command_def do_spawn_def git_dispatch
        git_remote_add_def with_repo_def set_origin_def print_def)
qed

lemma ensure_config_git:
  assumes "spawn sys = git" and "repo (vcs w) = Some r"
  shows "fst (ensure_config sys key ph dir w) = Proceed
         \<and> vcs (snd (ensure_config sys key ph dir w)) = set_default key ph (vcs w)"
  using assms
  by (cases "map_of (config r) key")
     (simp_all add: ensure_config_def run_git_command_def do_spawn_def git_dispatch
        git_config_get_def git_config_set_def set_default_def configured_def blank_query)

lemma then_stage_proceed: "fst (p w) = Proceed \<Longrightarrow> then_stage p q w = q (snd (p w))"
  by (cases "p w") (simp add: then_stage_def)

lemma repo_init_if_needed: "repo (init_if_needed d) \<noteq> None"
  by (simp add: init_if_needed_def split: option.splits)

lemma repo_set_origin: "repo d \<noteq> None \<Longrightarrow> repo (set_origin u d) \<noteq> None"
  by (auto simp: set_origin_def split: option.splits)

lemma repo_set_default: "repo d \<noteq> None \<Longrightarrow> repo (set_default k p d) \<noteq> None"
  by (auto simp: set_default_def split: option.splits)

lemma ensure_identity_git:
  assumes "spawn sys = git" and "repo (vcs w) \<noteq> None"
  shows "fst (ensure_identity sys dir w) = Proceed
         \<and> vcs (snd (ensure_identity sys dir w))
             = set_default ''user.email'' ''auto-uploader@example.com''
                 (set_default ''user.name'' ''GitHub Auto Uploader'' (vcs w))"
proof -
  let ?n = "ensure_config sys ''user.name'' ''GitHub Auto Uploader'' dir"
  from assms(2) obtain r where r: "repo (vcs w) = Some r" by auto
  note n = ensure_config_git[OF assms(1) r, of "''user.name''" "''GitHub Auto Uploader''" dir]
  from n assms(2) have "repo (vcs (snd (?n w))) \<noteq> None" by (simp add: repo_set_default)
  then obtain r' where r': "repo (vcs (snd (?n w))) = Some r'" by auto
  note e = ensure_config_git[OF assms(1) r', of "''user.email''" "''auto-uploader@example.com''" dir]
  from n e show ?thesis
    by (simp add: ensure_identity_def then_stage_proceed)
qed

lemma stages_1_3_git:
  assumes "spawn sys = git"
  shows "fst (stages_1_3 sys u dir w) = Proceed
         \<and> vcs (snd (stages_1_3 sys u dir w)) = prepared u (vcs w)"
proof -
  let ?w1 = "snd (ensure_vcs_root sys dir w)"
  let ?w2 = "snd (ensure_remote sys u dir ?w1)"
  note a = ensure_vcs_root_git[OF assms, of dir w]
  from a have "repo (vcs ?w1) \<noteq> None" by (simp add: repo_init_if_needed)
  then obtain r where r: "repo (vcs ?w1) = Some r" by auto
  note b = ensure_remote_git[OF assms r, of u dir]
  from b r have "repo (vcs ?w2) \<noteq> None" by (simp add: repo_set_origin)
  note c = ensure_identity_git[OF assms this, of dir]
  from a b c show ?thesis
    by (simp add: stages_1_3_def then_stage_proceed prepared_def)
qed

lemma placeholders_configured:
  "configured (Some ''GitHub Auto Uploader'')" "configured (Some ''auto-uploader@example.com'')"
  by code_simp+

lemma set_default_configured: "configured (config_value d k) \<Longrightarrow> set_default k p d = d"
  by (simp add: set_default_def config_value_def split: option.splits)

lemma configured_after_default:
  "repo d \<noteq> None \<Longrightarrow> configured (Some p) \<Longrightarrow> configured (config_value (set_default k p d) k)"
  by (auto simp: set_default_def config_value_def map_of_assoc_set split: option.splits)

lemma config_value_set_default_other:
  "k' \<noteq> k \<Longrightarrow> config_value (set_default k p d) k' = config_value d k'"
  by (auto simp: set_default_def config_value_def map_of_assoc_set split: option.splits)

lemma set_origin_idem: "set_origin u (set_origin u d) = set_origin u d"
  by (auto simp: set_origin_def assoc_set_idem split: option.splits)

lemma set_origin_set_default:
  "set_origin u (set_default k p d) = set_default k p (set_origin u d)"
  by (auto simp: set_origin_def set_default_def split: option.splits)

lemma init_if_needed_repo: "repo d \<noteq> None \<Longrightarrow> init_if_needed d = d"
  by (auto simp: init_if_needed_def)

lemma repo_prepared: "repo (prepared u d) \<noteq> None"
  by (simp add: prepared_def repo_set_default repo_set_origin repo_init_if_needed)

lemma prepared_idem: "prepared u (prepared u d) = prepared u d"
proof -
  let ?y = "set_origin u (init_if_needed d)"
  let ?n = "set_default ''user.name'' ''GitHub Auto Uploader''"
  let ?e = "set_default ''user.email'' ''auto-uploader@example.com''"
  have y: "repo ?y \<noteq> None" by (simp add: repo_set_origin repo_init_if_needed)
  have "prepared u (prepared u d) = ?e (?n (set_origin u (?e (?n ?y))))"
    using repo_prepared[of u d] by (simp add: prepared_def init_if_needed_repo)
  also have "set_origin u (?e (?n ?y)) = ?e (?n ?y)"
    by (simp add: set_origin_set_default set_origin_idem)
  also have "?n (?e (?n ?y)) = ?e (?n ?y)"
  proof (rule set_default_configured)
    have "configured (config_value (?n ?y) ''user.name'')"
      using y by (rule configured_after_default) (rule placeholders_configured)
    then show "configured (config_value (?e (?n ?y)) ''user.name'')"
      by (simp add: config_value_set_default_other)
  qed
  also have "?e (?e (?n ?y)) = ?e (?n ?y)"
  proof (rule set_default_configured)
    have "repo (?n ?y) \<noteq> None" using y by (rule repo_set_default)
    then show "configured (config_value (?e (?n ?y)) ''user.email'')"
      by (rule configured_after_default) (rule placeholders_configured)
  qed
  finally show ?thesis by (simp add: prepared_def)
qed

section \<open>C5: stages 1 to 3 are idempotent\<close>

text \<open>
  C5: on the reference tool, for every state of the local directory and every repository
  URL, stages 1 to 3 go through, and running them a second time goes through as well and
  leaves the state of the directory (working tree, remotes, configuration and the rest) as
  the first run left it.
\<close>

theorem stages_1_3_idempotent:
  assumes "spawn sys = git"
  shows "fst (stages_1_3 sys repo_url dir w) = Proceed
         \<and> fst (stages_1_3 sys repo_url dir (snd (stages_1_3 sys repo_url dir w))) = Proceed
         \<and> vcs (snd (stages_1_3 sys repo_url dir (snd (stages_1_3 sys repo_url dir w))))
             = vcs (snd (stages_1_3 sys repo_url dir w))"
  using stages_1_3_git[OF assms, of repo_url dir w]
    stages_1_3_git[OF assms, of repo_url dir "snd (stages_1_3 sys repo_url dir w)"]
  by (simp add: prepared_idem)

theorem stages_1_3_idempotent_witness:
  "spawn demo_sys = git
   \<and> fst (stages_1_3 demo_sys ''https://github.com/u/demo.git'' ''/home/u/proj''
            (init_world elsewhere_dir)) = Proceed
   \<and> vcs (snd (stages_1_3 demo_sys ''https://github.com/u/demo.git'' ''/home/u/proj''
            (snd (stages_1_3 demo_sys ''https://github.com/u/demo.git'' ''/home/u/proj''
                    (init_world elsewhere_dir)))))
       = vcs (snd (stages_1_3 demo_sys ''https://github.com/u/demo.git'' ''/home/u/proj''
                    (init_world elsewhere_dir)))
   \<and> origin_url (vcs (snd (stages_1_3 demo_sys ''https://github.com/u/demo.git'' ''/home/u/proj''
                    (init_world elsewhere_dir)))) = Some ''https://github.com/u/demo.git''"
proof -
  have h: "spawn demo_sys = git" by (simp add: demo_sys_def git_sys_def)
  have o: "origin_url (vcs (snd (stages_1_3 demo_sys ''https://github.com/u/demo.git''
              ''/home/u/proj'' (init_world elsewhere_dir)))) = Some ''https://github.com/u/demo.git''"
    by code_simp
  show ?thesis
    using h o stages_1_3_idempotent [OF h, of "''https://github.com/u/demo.git''"
        "''/home/u/proj''" "init_world elsewhere_dir"]
    by simp
qed

section \<open>C6: an existing remote is rewritten\<close>

text \<open>
  C6: on the reference tool, in a directory that has a remote \<^verbatim>\<open>origin\<close>, whatever its
  URL, stage 2 does not return: it falls through to stage 3, and \<^verbatim>\<open>origin\<close> then has
  the given URL.
\<close>

theorem existing_origin_is_rewritten:
  assumes "spawn sys = git" and "origin_url (vcs w) = Some old"
  shows "fst (ensure_remote sys repo_url dir w) = Proceed
         \<and> origin_url (vcs (snd (ensure_remote sys repo_url dir w))) = Some repo_url"
proof -
  from assms(2) obtain r where r: "repo (vcs w) = Some r"
    by (auto simp: origin_url_def split: option.splits)
  from ensure_remote_git[OF assms(1) r, of repo_url dir] r show ?thesis
    by (simp add: origin_url_def set_origin_def map_of_assoc_set)
qed

theorem existing_origin_is_rewritten_witness:
  "spawn demo_sys = git
   \<and> origin_url (vcs (init_world elsewhere_dir)) = Some ''https://example.org/old.git''
   \<and> fst (ensure_remote demo_sys ''https://github.com/u/demo.git'' ''/home/u/proj''
            (init_world elsewhere_dir)) = Proceed
   \<and> origin_url (vcs (snd (ensure_remote demo_sys ''https://github.com/u/demo.git''
                              ''/home/u/proj'' (init_world elsewhere_dir))))
       = Some ''https://github.com/u/demo.git''"
proof -
  have h: "spawn demo_sys = git" by (simp add: demo_sys_def git_sys_def)
  have o: "origin_url (vcs (init_world elsewhere_dir)) = Some ''https://example.org/old.git''"
    by code_simp
  show ?thesis
    using h o existing_origin_is_rewritten [OF h o, of "''https://github.com/u/demo.git''"
        "''/home/u/proj''"]
    by simp
qed

section \<open>C7: a configured identity is kept\<close>

text \<open>
  C7 as stated (a value is set to the placeholder only when it is unset) does not hold for
  a value that is set and blank. The test of lines 129 and 133 is on the stripped answer
  of the query: in a working tree whose user name is set to one space, the query answers
  that space, and stage 3 replaces the value by the placeholder.
\<close>

theorem blank_name_is_overwritten:
  "config_value (vcs (init_world blank_name_dir)) ''user.name'' = Some '' ''
   \<and> trace (snd (ensure_identity demo_sys ''/home/u/proj'' (init_world blank_name_dir))) ! 0
       = (\<lparr>argv = [''git'', ''config'', ''user.name''], cwd = ''/home/u/proj'', stdin = None\<rparr>,
          Exited 0 ('' '' @ nl) [])
   \<and> config_value (vcs (snd (ensure_identity demo_sys ''/home/u/proj'' (init_world blank_name_dir))))
         ''user.name''
       = Some ''GitHub Auto Uploader''"
  by code_simp

text \<open>
  C7, amended: on the reference tool, in a working tree, stage 3 goes through; when user
  name and email are both set to values that are not blank it leaves the state of the
  directory as it was; and each of the two values is kept when it is set and not blank,
  and becomes the placeholder when it is unset or blank.
\<close>

theorem identity_kept_when_configured:
  assumes "spawn sys = git" and "repo (vcs w) \<noteq> None"
  shows "fst (ensure_identity sys dir w) = Proceed
         \<and> (configured (config_value (vcs w) ''user.name'')
              \<and> configured (config_value (vcs w) ''user.email'')
            \<longrightarrow> vcs (snd (ensure_identity sys dir w)) = vcs w)
         \<and> config_value (vcs (snd (ensure_identity sys dir w))) ''user.name''
             = (if configured (config_value (vcs w) ''user.name'')
                then config_value (vcs w) ''user.name'' else Some ''GitHub Auto Uploader'')
         \<and> config_value (vcs (snd (ensure_identity sys dir w))) ''user.email''
             = (if configured (config_value (vcs w) ''user.email'')
                then config_value (vcs w) ''user.email'' else Some ''auto-uploader@example.com'')"
proof -
  from assms(2) obtain r where r: "repo (vcs w) = Some r" by auto
  from ensure_identity_git[OF assms, of dir] r show ?thesis
    by (simp add: set_default_def config_value_def map_of_assoc_set)
qed

theorem identity_kept_when_configured_witness:
  "spawn demo_sys = git
   \<and> repo (vcs (init_world elsewhere_dir)) \<noteq> None
   \<and> configured (config_value (vcs (init_world elsewhere_dir)) ''user.name'')
   \<and> configured (config_value (vcs (init_world elsewhere_dir)) ''user.email'')
   \<and> fst (ensure_identity demo_sys ''/home/u/proj'' (init_world elsewhere_dir)) = Proceed
   \<and> vcs (snd (ensure_identity demo_sys ''/home/u/proj'' (init_world elsewhere_dir)))
       = elsewhere_dir"
proof -
  have h: "spawn demo_sys = git" by (simp add: demo_sys_def git_sys_def)
  have r: "repo (vcs (init_world elsewhere_dir)) \<noteq> None"
    by (simp add: init_world_def elsewhere_dir_def)
  have n: "configured (config_value (vcs (init_world elsewhere_dir)) ''user.name'')"
    by code_simp
  have e: "configured (config_value (vcs (init_world elsewhere_dir)) ''user.email'')"
    by code_simp
  have v: "vcs (init_world elsewhere_dir) = elsewhere_dir" by (simp add: init_world_def)
  show ?thesis
    using h r n e identity_kept_when_configured [OF h r, of "''/home/u/proj''"]
    by (simp add: v)
qed

section \<open>C2: the script in the commit\<close>

text \<open>
  C2 on a new directory that holds \<^verbatim>\<open>a.txt\<close> and the script: the pipeline succeeds;
  its eleventh command is the reset of the script, which fails because the repository has
  no commit yet; the outcome is not looked at (line 155), and the tree of the commit holds
  the script.
\<close>

theorem script_is_committed:
  "fst demo_run = Return True
   \<and> argv (fst (trace (snd demo_run) ! 10)) = [''git'', ''reset'', ''HEAD'', ''app.py'']
   \<and> snd (trace (snd demo_run) ! 10)
       = Exited 128 [] (''fatal: ambiguous argument '' @ apos @ ''HEAD'' @ apos
                          @ '': unknown revision or path not in the working tree.'' @ nl)
   \<and> map_option history (repo (vcs (snd demo_run))) = Some [[''a.txt'', ''app.py'']]"
  by code_simp

end
